theory Spec2Isabelle
  imports Main
begin

section \<open>The useForm hook (src/hooks/useForm.ts) as state transformers\<close>

subsection \<open>JavaScript objects\<close>

text \<open>
  A plain JavaScript object with string keys is a list of (key, value) pairs with distinct
  keys, in insertion order. Reading a missing property gives \<open>undefined\<close>, which is
  \<open>None\<close> of \<open>get_prop\<close>. The spread with a computed key
  \<^verbatim>\<open>{ ...o, [k]: v }\<close> is \<open>set_prop\<close>: an existing key keeps its position, a new
  key goes last. (JavaScript enumerates integer-like keys first; only the order of
  enumeration differs, and no operation of the hook depends on it.)
\<close>

type_synonym 'a obj = "(string \<times> 'a) list"

fun set_prop :: "string \<Rightarrow> 'a \<Rightarrow> 'a obj \<Rightarrow> 'a obj" where
  "set_prop k v [] = [(k, v)]"
| "set_prop k v ((k', v') # ps) =
     (if k' = k then (k, v) # ps else (k', v') # set_prop k v ps)"

definition get_prop :: "'a obj \<Rightarrow> string \<Rightarrow> 'a option" where
  "get_prop ob k = map_of ob k"

definition object_keys :: "'a obj \<Rightarrow> string list" where
  "object_keys ob = map fst ob"

definition object_values :: "'a obj \<Rightarrow> 'a list" where
  "object_values ob = map snd ob"

subsection \<open>The schema engine's contract\<close>

text \<open>
  A violation (Zod issue) carries a path and a message. A path segment is a string key or
  a number (an array index). \<open>path0\<close> is \<^verbatim>\<open>err.path[0]\<close>: \<open>None\<close> is
  \<open>undefined\<close>, read from an empty path.
\<close>

datatype segment = Key string | Index nat

record issue =
  path :: "segment list"
  message :: string

definition path0 :: "issue \<Rightarrow> segment option" where
  "path0 err = (case path err of [] \<Rightarrow> None | seg # _ \<Rightarrow> Some seg)"

text \<open>Truthiness of \<^verbatim>\<open>err.path[0]\<close>: \<open>undefined\<close>, the empty string and \<open>0\<close> are falsy.\<close>

fun truthy_segment :: "segment option \<Rightarrow> bool" where
  "truthy_segment None = False"
| "truthy_segment (Some (Key s)) = (s \<noteq> [])"
| "truthy_segment (Some (Index n)) = (n \<noteq> 0)"

text \<open>A number used as a property key is converted to its decimal string.\<close>

definition digit :: "nat \<Rightarrow> char" where
  "digit d = ''0123456789'' ! (d mod 10)"

function decimal :: "nat \<Rightarrow> string" where
  "decimal n = (if n < 10 then [digit n] else decimal (n div 10) @ [digit (n mod 10)])"
  by pat_completeness auto
termination
  by (relation "measure (\<lambda>n. n)") auto

declare decimal.simps [simp del]

fun property_key :: "segment \<Rightarrow> string" where
  "property_key (Key s) = s"
| "property_key (Index n) = decimal n"

text \<open>
  What a call can throw: an instance of \<open>z.ZodError\<close> (which is an \<open>Error\<close>; it carries
  the ordered list of issues and a message), any other instance of \<open>Error\<close> with its
  message, or a value that is not an \<open>Error\<close>.
\<close>

datatype thrown = ZodError "issue list" string | OtherError string | NonError

fun instanceof_Error :: "thrown \<Rightarrow> bool" where
  "instanceof_Error (ZodError _ _) = True"
| "instanceof_Error (OtherError _) = True"
| "instanceof_Error NonError = False"

fun error_message :: "thrown \<Rightarrow> string" where
  "error_message (ZodError _ m) = m"
| "error_message (OtherError m) = m"
| "error_message NonError = []"

text \<open>
  \<^verbatim>\<open>schema.parse(values)\<close> returns (\<open>Inr\<close>) or throws (\<open>Inl\<close>); the submit callback,
  awaited, resolves (\<open>Inr\<close>) or throws/rejects (\<open>Inl\<close>).
\<close>

type_synonym 'v schema = "'v obj \<Rightarrow> thrown + unit"
type_synonym 'v submit_callback = "'v obj \<Rightarrow> thrown + unit"

subsection \<open>FormState and UseFormConfig (types/forms.ts)\<close>

text \<open>
  An entry of \<open>errors\<close> holds a message (\<open>Some m\<close>) or \<open>undefined\<close> (\<open>None\<close>):
  \<open>setFieldValue\<close> stores \<open>undefined\<close> under the field's key.
\<close>

text \<open>The field \<open>values\<close> is written \<open>values'\<close> (\<open>values\<close> is a command of Isabelle).\<close>

record 'v FormState =
  values' :: "'v obj"
  errors :: "string option obj"
  touched :: "bool obj"
  isSubmitting :: bool
  isValid :: bool
  submitCount :: nat
  submitError :: "string option"

record 'v UseFormConfig =
  initialValues :: "'v obj"
  validationSchema :: "'v schema option"
  onSubmit :: "'v submit_callback option"

text \<open>\<^verbatim>\<open>errors[field]\<close>: \<open>undefined\<close> for a missing key as for a key holding it.\<close>

definition error_at :: "string option obj \<Rightarrow> string \<Rightarrow> string option" where
  "error_at errs field = (case get_prop errs field of None \<Rightarrow> None | Some e \<Rightarrow> e)"

text \<open>\<^verbatim>\<open>!!error\<close> for an entry of \<open>errors\<close>: a non-empty string.\<close>

fun truthy_error :: "string option \<Rightarrow> bool" where
  "truthy_error None = False"
| "truthy_error (Some m) = (m \<noteq> [])"

text \<open>The state of the first render: the argument of \<open>useState\<close> (lines 17-25).\<close>

definition initialFormState :: "'v UseFormConfig \<Rightarrow> 'v FormState" where
  "initialFormState config =
     \<lparr>values' = initialValues config, errors = [], touched = [],
      isSubmitting = False, isValid = True, submitCount = 0, submitError = None\<rparr>"

subsection \<open>validateWithSchema and validateForm\<close>

text \<open>
  The plain assignment \<^verbatim>\<open>o[k] = v\<close> of a string to a property of an object literal.
  Under the key \<^verbatim>\<open>__proto__\<close> it reaches the setter of \<open>Object.prototype\<close>, which
  ignores a value that is not an object: no property is created. (A computed key of an
  object literal, as in \<open>set_prop\<close>, creates an own property under that key too.)
\<close>

definition assign_prop :: "string \<Rightarrow> 'a \<Rightarrow> 'a obj \<Rightarrow> 'a obj" where
  "assign_prop k v ob = (if k = ''__proto__'' then ob else set_prop k v ob)"

text \<open>
  The body of the \<open>forEach\<close> of lines 52-57: a truthy leading segment is assigned in
  \<open>fieldErrors\<close> under its key, whatever that key held before.
\<close>

definition record_issue :: "issue \<Rightarrow> string option obj \<Rightarrow> string option obj" where
  "record_issue err fieldErrors =
     (case path0 err of
        None \<Rightarrow> fieldErrors
      | Some seg \<Rightarrow>
          if truthy_segment (Some seg)
          then assign_prop (property_key seg) (Some (message err)) fieldErrors
          else fieldErrors)"

text \<open>
  Lines 40-63. \<open>config\<close> is the configuration of the latest render (\<open>schemaRef.current\<close>).
  The result is the pair (isValid, fieldErrors).
\<close>

definition validateWithSchema ::
  "'v UseFormConfig \<Rightarrow> 'v obj \<Rightarrow> bool \<times> string option obj" where
  "validateWithSchema config vals =
     (case validationSchema config of
        None \<Rightarrow> (True, [])
      | Some schema \<Rightarrow>
          (case schema vals of
             Inr _ \<Rightarrow> (True, [])
           | Inl (ZodError errs _) \<Rightarrow> (False, fold record_issue errs [])
           | Inl _ \<Rightarrow> (False, [])))"

text \<open>
  Lines 69-79. \<open>formState_values\<close> is the \<open>formState.values\<close> of the render whose
  \<open>validateForm\<close> is called; \<open>prev\<close> is the store the queued update is applied to. The
  result is the updated store and the returned validity.
\<close>

definition validateForm ::
  "'v UseFormConfig \<Rightarrow> 'v obj \<Rightarrow> 'v FormState \<Rightarrow> 'v FormState \<times> bool" where
  "validateForm config formState_values prev =
     (case validateWithSchema config formState_values of
        (valid, fieldErrors) \<Rightarrow> (prev\<lparr>errors := fieldErrors, isValid := valid\<rparr>, valid))"

subsection \<open>setFieldValue and handleChange\<close>

text \<open>
  Lines 129-131: \<^verbatim>\<open>error.errors.find((err) => err.path[0] === field)?.message || undefined\<close>.
  The strict equality holds for a string segment equal to the field; an empty message is
  turned into \<open>undefined\<close> by \<^verbatim>\<open>||\<close>.
\<close>

definition find_field_error :: "string \<Rightarrow> issue list \<Rightarrow> string option" where
  "find_field_error field errs =
     (case find (\<lambda>err. path0 err = Some (Key field)) errs of
        None \<Rightarrow> None
      | Some err \<Rightarrow> if message err \<noteq> [] then Some (message err) else None)"

text \<open>
  Lines 107-151: the state update queued by \<open>setFieldValue(field, value)\<close>, applied to
  the store \<open>prev\<close>. \<open>Inr\<close> is a normal return of the new store, \<open>Inl\<close> an exception
  leaving the function. A failure of \<open>parse\<close> that is not a \<open>ZodError\<close> is caught and
  control reaches the last \<open>return\<close>.
\<close>

definition setFieldValue ::
  "'v UseFormConfig \<Rightarrow> string \<Rightarrow> 'v \<Rightarrow> 'v FormState \<Rightarrow> thrown + 'v FormState" where
  "setFieldValue config field val prev =
     (let newValues = set_prop field val (values' prev) in
      case validationSchema config of
        None \<Rightarrow> Inr (prev\<lparr>values' := newValues\<rparr>)
      | Some schema \<Rightarrow>
          (case schema (set_prop field val (values' prev)) of
             Inr _ \<Rightarrow>
               (let updatedErrors = set_prop field None (errors prev);
                    hasErrors = list_ex truthy_error (object_values updatedErrors)
                in Inr (prev\<lparr>values' := newValues, errors := updatedErrors,
                              isValid := \<not> hasErrors\<rparr>))
           | Inl (ZodError errs _) \<Rightarrow>
               (let fieldError = find_field_error field errs;
                    updatedErrors = set_prop field fieldError (errors prev)
                in Inr (prev\<lparr>values' := newValues, errors := updatedErrors,
                              isValid := False\<rparr>))
           | Inl _ \<Rightarrow> Inr (prev\<lparr>values' := newValues\<rparr>)))"

text \<open>
  The values a change event produces: the raw string, the checked state, or a number.
  \<open>'n\<close> is the type of JavaScript numbers and \<open>Number\<close>, the conversion of a string
  to a number, is a parameter of \<open>handleChange\<close>.
\<close>

datatype 'n jsvalue = JString string | JBoolean bool | JNumber 'n

text \<open>\<^verbatim>\<open>e.target\<close>: its name, value, type and checked state.\<close>

record ChangeEvent =
  target_name :: string
  target_value :: string
  target_type :: string
  target_checked :: bool

text \<open>Lines 84-102.\<close>

definition handleChange ::
  "'n jsvalue UseFormConfig \<Rightarrow> (string \<Rightarrow> 'n) \<Rightarrow> ChangeEvent \<Rightarrow> 'n jsvalue FormState
     \<Rightarrow> thrown + 'n jsvalue FormState" where
  "handleChange config Number e prev =
     (let fieldValue =
        (if target_type e = ''checkbox'' then JBoolean (target_checked e)
         else if target_type e = ''number''
           then (if target_value e = [] then JString [] else JNumber (Number (target_value e)))
         else JString (target_value e))
      in setFieldValue config (target_name e) fieldValue prev)"

subsection \<open>setFieldTouched, handleBlur, setValues, resetForm\<close>

text \<open>Lines 171-176.\<close>

definition setFieldTouched :: "string \<Rightarrow> bool \<Rightarrow> 'v FormState \<Rightarrow> 'v FormState" where
  "setFieldTouched field isTouched prev =
     prev\<lparr>touched := set_prop field isTouched (touched prev)\<rparr>"

text \<open>Lines 156-166.\<close>

definition handleBlur :: "string \<Rightarrow> 'v FormState \<Rightarrow> 'v FormState" where
  "handleBlur name prev = setFieldTouched name True prev"

text \<open>Lines 181-186: \<^verbatim>\<open>{ ...prev.values, ...values }\<close>.\<close>

definition setValues :: "'v obj \<Rightarrow> 'v FormState \<Rightarrow> 'v FormState" where
  "setValues vals prev =
     prev\<lparr>values' := fold (\<lambda>(k, v) acc. set_prop k v acc) vals (values' prev)\<rparr>"

text \<open>
  Lines 191-201. The callback is rebuilt when \<open>initialValues\<close> changes (its dependency
  list is \<^verbatim>\<open>[initialValues]\<close>), so \<open>config\<close> is the configuration of the render whose
  \<open>resetForm\<close> is called. The store is replaced, whatever it was.
\<close>

definition resetForm :: "'v UseFormConfig \<Rightarrow> 'v FormState \<Rightarrow> 'v FormState" where
  "resetForm config prev =
     \<lparr>values' = initialValues config, errors = [], touched = [],
      isSubmitting = False, isValid = True, submitCount = 0, submitError = None\<rparr>"

subsection \<open>handleSubmit\<close>

text \<open>
  A run of \<open>handleSubmit\<close>: the store after each of its state updates, in order, and the
  arguments the submit callback was invoked with.
\<close>

record 'v SubmitRun =
  history :: "'v FormState list"
  invocations :: "'v obj list"

text \<open>Lines 241-246: the message kept of a failure of the submit callback.\<close>

definition submit_failure_text :: "thrown \<Rightarrow> string" where
  "submit_failure_text error =
     (if instanceof_Error error then error_message error else ''Form submission failed'')"

text \<open>
  Lines 206-250, with no other event between its updates. \<open>formState_values\<close> is the
  \<open>formState.values\<close> of the render whose \<open>handleSubmit\<close> is called, \<open>prev\<close> the store
  when it is called. \<open>Inr\<close> is the run of a call that settles normally, \<open>Inl\<close> a failure
  leaving \<open>handleSubmit\<close>.
\<close>

definition handleSubmit ::
  "'v UseFormConfig \<Rightarrow> 'v obj \<Rightarrow> 'v FormState \<Rightarrow> thrown + 'v SubmitRun" where
  "handleSubmit config formState_values prev =
     (let s1 = prev\<lparr>submitCount := submitCount prev + 1,
                     touched := fold (\<lambda>key acc. set_prop key True acc)
                                  (object_keys (values' prev)) []\<rparr>;
          (s2, valid) = validateForm config formState_values s1
      in if \<not> valid then Inr \<lparr>history = [s1, s2], invocations = []\<rparr>
         else
           (case onSubmit config of
              None \<Rightarrow> Inr \<lparr>history = [s1, s2], invocations = []\<rparr>
            | Some callback \<Rightarrow>
                (let s3 = s2\<lparr>isSubmitting := True, submitError := None\<rparr> in
                 case callback formState_values of
                   Inr _ \<Rightarrow>
                     Inr \<lparr>history = [s1, s2, s3, s3\<lparr>isSubmitting := False\<rparr>],
                          invocations = [formState_values]\<rparr>
                 | Inl error \<Rightarrow>
                     Inr \<lparr>history =
                            [s1, s2, s3,
                             s3\<lparr>isSubmitting := False,
                                submitError := Some (submit_failure_text error)\<rparr>],
                          invocations = [formState_values]\<rparr>)))"

text \<open>The store once the call has settled.\<close>

definition settled :: "'v SubmitRun \<Rightarrow> 'v FormState" where
  "settled run = last (history run)"

text \<open>
  The store after the first update of \<open>handleSubmit\<close> (lines 212-219), and after its
  second, the update of \<open>validateForm\<close>; names for the statements about its runs.
\<close>

definition counted :: "'v FormState \<Rightarrow> 'v FormState" where
  "counted prev =
     prev\<lparr>submitCount := submitCount prev + 1,
          touched := fold (\<lambda>key acc. set_prop key True acc) (object_keys (values' prev)) []\<rparr>"

definition validated :: "'v UseFormConfig \<Rightarrow> 'v obj \<Rightarrow> 'v FormState \<Rightarrow> 'v FormState" where
  "validated config formState_values prev =
     (counted prev)\<lparr>errors := snd (validateWithSchema config formState_values),
                    isValid := fst (validateWithSchema config formState_values)\<rparr>"

subsection \<open>Example configurations\<close>

text \<open>
  A schema in the manner of the sample form's \<open>userFormSchema\<close>: \<open>email\<close> must contain
  an at sign, \<open>password\<close> must have at least 8 characters, an uppercase letter and a
  digit. As the schema engine does, it reports every failed check of a field, in the
  order of the checks.
\<close>

definition field_issue :: "string \<Rightarrow> string \<Rightarrow> issue" where
  "field_issue field msg = \<lparr>path = [Key field], message = msg\<rparr>"

definition email_issues :: "string \<Rightarrow> issue list" where
  "email_issues s =
     (if CHR ''@'' \<in> set s then []
      else [field_issue ''email'' ''Please enter a valid email address''])"

definition password_issues :: "string \<Rightarrow> issue list" where
  "password_issues s =
     (if length s < 8
      then [field_issue ''password'' ''Password must be at least 8 characters''] else []) @
     (if list_ex (\<lambda>c. c \<in> set ''ABCDEFGHIJKLMNOPQRSTUVWXYZ'') s then []
      else [field_issue ''password''
              ''Password must contain at least one uppercase letter'']) @
     (if list_ex (\<lambda>c. c \<in> set ''0123456789'') s then []
      else [field_issue ''password'' ''Password must contain at least one number''])"

definition string_field ::
  "'n jsvalue obj \<Rightarrow> string \<Rightarrow> (string \<Rightarrow> issue list) \<Rightarrow> issue list" where
  "string_field vals field check =
     (case get_prop vals field of
        Some (JString s) \<Rightarrow> check s
      | _ \<Rightarrow> [field_issue field ''Required''])"

definition example_schema :: "'n jsvalue schema" where
  "example_schema vals =
     (case string_field vals ''email'' email_issues @
           string_field vals ''password'' password_issues of
        [] \<Rightarrow> Inr ()
      | err # errs \<Rightarrow> Inl (ZodError (err # errs) ''Validation failed''))"

text \<open>A submit callback that rejects with an \<open>Error\<close> whose message is "network down".\<close>

definition failing_callback :: "'v submit_callback" where
  "failing_callback vals = Inl (OtherError ''network down'')"

definition example_config :: "nat jsvalue UseFormConfig" where
  "example_config =
     \<lparr>initialValues = [(''email'', JString []), (''password'', JString [])],
      validationSchema = Some example_schema,
      onSubmit = Some failing_callback\<rparr>"

text \<open>The same form in a later render, with other initial values and no callback.\<close>

definition later_config :: "nat jsvalue UseFormConfig" where
  "later_config =
     \<lparr>initialValues = [(''email'', JString ''bob@x.com''), (''password'', JString [])],
      validationSchema = Some example_schema,
      onSubmit = None\<rparr>"

text \<open>
  A store as a render of the example form sees it, with values the schema accepts, and
  the store after \<open>setFieldValue("email", "bob")\<close> was queued in that render: a handler
  of the render still holds the values of the first.
\<close>

definition rendered_store :: "nat jsvalue FormState" where
  "rendered_store =
     \<lparr>values' = [(''email'', JString ''a@b''), (''password'', JString ''Password1'')],
      errors = [], touched = [], isSubmitting = False, isValid = True,
      submitCount = 0, submitError = None\<rparr>"

definition edited_store :: "nat jsvalue FormState" where
  "edited_store =
     \<lparr>values' = [(''email'', JString ''bob''), (''password'', JString ''Password1'')],
      errors = [(''email'', Some ''Please enter a valid email address'')],
      touched = [], isSubmitting = False, isValid = False,
      submitCount = 0, submitError = None\<rparr>"

text \<open>A schema whose one check carries an empty message.\<close>

definition blank_message_schema :: "'n jsvalue schema" where
  "blank_message_schema vals =
     (case get_prop vals ''email'' of
        Some (JString (c # cs)) \<Rightarrow> Inr ()
      | _ \<Rightarrow> Inl (ZodError [field_issue ''email'' []] ''Validation failed''))"

definition blank_message_config :: "nat jsvalue UseFormConfig" where
  "blank_message_config =
     \<lparr>initialValues = [(''email'', JString ''a'')],
      validationSchema = Some blank_message_schema,
      onSubmit = None\<rparr>"

text \<open>A schema whose \<open>parse\<close> fails with an error that is not a \<open>ZodError\<close>.\<close>

definition broken_schema :: "'v schema" where
  "broken_schema vals = Inl (OtherError ''parse is not available'')"

definition broken_config :: "nat jsvalue UseFormConfig" where
  "broken_config =
     \<lparr>initialValues = [(''email'', JString [])],
      validationSchema = Some broken_schema,
      onSubmit = None\<rparr>"

text \<open>A conversion of decimal strings, for the examples.\<close>

definition example_Number :: "string \<Rightarrow> nat" where
  "example_Number s = fold (\<lambda>c n. 10 * n + (of_char c - 48)) s 0"

section \<open>Properties\<close>

subsection \<open>Objects\<close>

lemma get_prop_set_prop:
  "get_prop (set_prop k v ob) k' = (if k' = k then Some v else get_prop ob k')"
  by (induction ob) (auto simp: get_prop_def)

lemma error_at_set_prop:
  "error_at (set_prop k v ob) k' = (if k' = k then v else error_at ob k')"
  by (simp add: error_at_def get_prop_set_prop)

lemma keys_set_prop:
  "object_keys (set_prop k v ob) =
     (if k \<in> set (object_keys ob) then object_keys ob else object_keys ob @ [k])"
  by (induction ob) (force simp: object_keys_def)+

lemma distinct_set_prop:
  "distinct (object_keys ob) \<Longrightarrow> distinct (object_keys (set_prop k v ob))"
  by (simp add: keys_set_prop)

lemma all_keys_true:
  "get_prop (fold (\<lambda>key acc. set_prop key True acc) ks acc) k =
     (if k \<in> set ks then Some True else get_prop acc k)"
  by (induction ks arbitrary: acc) (auto simp: get_prop_set_prop)

lemma holds_truthy:
  "get_prop ob f = Some e \<Longrightarrow> truthy_error e \<Longrightarrow> list_ex truthy_error (object_values ob)"
  by (auto simp: get_prop_def object_values_def list_ex_iff dest!: map_of_SomeD
      intro: rev_bexI)

text \<open>
  On an object (distinct keys), some value is truthy exactly when reading some
  property gives a truthy value.
\<close>

lemma some_truthy_iff:
  assumes "distinct (object_keys ob)"
  shows "list_ex truthy_error (object_values ob) \<longleftrightarrow> (\<exists>f. truthy_error (error_at ob f))"
proof
  assume "list_ex truthy_error (object_values ob)"
  then obtain k e where "(k, e) \<in> set ob" "truthy_error e"
    by (auto simp: list_ex_iff object_values_def)
  moreover from this assms have "map_of ob k = Some e"
    by (simp add: object_keys_def)
  ultimately have "truthy_error (error_at ob k)"
    by (simp add: error_at_def get_prop_def)
  then show "\<exists>f. truthy_error (error_at ob f)" ..
next
  assume "\<exists>f. truthy_error (error_at ob f)"
  then obtain f where f: "truthy_error (error_at ob f)" ..
  then obtain e where "get_prop ob f = Some e" "truthy_error e"
    by (auto simp: error_at_def split: option.splits)
  then show "list_ex truthy_error (object_values ob)"
    by (rule holds_truthy)
qed

subsection \<open>What validateWithSchema records\<close>

lemma validateWithSchema_rejected:
  "validationSchema config = Some schema \<Longrightarrow> schema vals = Inl (ZodError errs m) \<Longrightarrow>
   validateWithSchema config vals = (False, fold record_issue errs [])"
  by (simp add: validateWithSchema_def)

lemma error_at_record_issue:
  "error_at (record_issue err acc) f =
     (if truthy_segment (path0 err) \<and> map_option property_key (path0 err) = Some f
         \<and> f \<noteq> ''__proto__''
      then Some (message err) else error_at acc f)"
  by (auto simp: record_issue_def assign_prop_def error_at_set_prop split: option.splits)

text \<open>
  The loop of lines 52-57 overwrites: a field ends with the message of the last
  violation of the list whose (truthy) leading segment is the field's key.
\<close>

lemma fieldErrors_last_violation:
  "error_at (fold record_issue errs acc) f =
     (case find (\<lambda>err. truthy_segment (path0 err) \<and>
                        map_option property_key (path0 err) = Some f \<and>
                        f \<noteq> ''__proto__'') (rev errs) of
        Some err \<Rightarrow> Some (message err)
      | None \<Rightarrow> error_at acc f)"
  by (induction errs arbitrary: acc rule: rev_induct) (auto simp: error_at_record_issue)

lemma example_schema_blank_password:
  "example_schema [(''email'', JString ''a@b''), (''password'', JString [])] =
     Inl (ZodError
       [field_issue ''password'' ''Password must be at least 8 characters'',
        field_issue ''password'' ''Password must contain at least one uppercase letter'',
        field_issue ''password'' ''Password must contain at least one number'']
       ''Validation failed'')"
  by (simp add: example_schema_def string_field_def get_prop_def email_issues_def
      password_issues_def)

text \<open>
  C1. The claim: when the schema rejects the values with an ordered list of violations,
  \<open>validateWithSchema\<close> maps each field to the message of the first violation of the
  list whose leading segment is that field. On the code this fails. The example schema
  rejects an empty password with three violations of \<open>password\<close>, in this order: at least
  8 characters, an uppercase letter, a number. \<open>validateWithSchema\<close> records the message
  of the last one, where the claim says the first; \<open>setFieldValue\<close>, on the same values
  and the same list, records the first.
\<close>

theorem C1_validateWithSchema_keeps_last_violation:
  "example_schema [(''email'', JString ''a@b''), (''password'', JString [])] =
     Inl (ZodError
       [field_issue ''password'' ''Password must be at least 8 characters'',
        field_issue ''password'' ''Password must contain at least one uppercase letter'',
        field_issue ''password'' ''Password must contain at least one number'']
       ''Validation failed'')
   \<and> validateWithSchema example_config
         [(''email'', JString ''a@b''), (''password'', JString [])] =
       (False, [(''password'', Some ''Password must contain at least one number'')])
   \<and> setFieldValue example_config ''password'' (JString [])
         \<lparr>values' = [(''email'', JString ''a@b''), (''password'', JString ''x'')],
          errors = [], touched = [], isSubmitting = False, isValid = True,
          submitCount = 0, submitError = None\<rparr> =
       Inr \<lparr>values' = [(''email'', JString ''a@b''), (''password'', JString [])],
            errors = [(''password'', Some ''Password must be at least 8 characters'')],
            touched = [], isSubmitting = False, isValid = False,
            submitCount = 0, submitError = None\<rparr>"
proof -
  let ?vals = "[(''email'', JString ''a@b''), (''password'', JString [])] :: nat jsvalue obj"
  note rejected = example_schema_blank_password [where 'a = nat]
  have schema: "validationSchema example_config = Some example_schema"
    by (simp add: example_config_def)
  have "validateWithSchema example_config ?vals =
      (False, [(''password'', Some ''Password must contain at least one number'')])"
    by (simp add: validateWithSchema_rejected [OF schema rejected] record_issue_def
        assign_prop_def path0_def field_issue_def)
  moreover have "setFieldValue example_config ''password'' (JString [])
         \<lparr>values' = [(''email'', JString ''a@b''), (''password'', JString ''x'')],
          errors = [], touched = [], isSubmitting = False, isValid = True,
          submitCount = 0, submitError = None\<rparr> =
       Inr \<lparr>values' = ?vals,
            errors = [(''password'', Some ''Password must be at least 8 characters'')],
            touched = [], isSubmitting = False, isValid = False,
            submitCount = 0, submitError = None\<rparr>"
    by (simp add: setFieldValue_def schema rejected find_field_error_def path0_def
        field_issue_def)
  ultimately show ?thesis
    by (simp add: example_schema_blank_password)
qed

subsection \<open>setFieldValue\<close>

text \<open>
  C2. With a schema configured that accepts the updated values, \<open>setFieldValue(field, value)\<close>
  returns normally; the new store has the value under \<open>field\<close> in \<open>values\<close>, holds
  \<open>undefined\<close> under \<open>field\<close> in \<open>errors\<close>, and \<open>isValid\<close> is true exactly when no
  value of the resulting \<open>errors\<close> object is truthy (for an object, with its distinct keys:
  when no field's entry is a truthy message). So a truthy message recorded earlier for
  another field, stale or not, makes \<open>isValid\<close> false.
\<close>

theorem C2_setFieldValue_accepted:
  assumes schema: "validationSchema config = Some schema"
    and accepted: "schema (set_prop field val (values' prev)) = Inr ()"
  shows "\<exists>next. setFieldValue config field val prev = Inr next
     \<and> values' next = set_prop field val (values' prev)
     \<and> get_prop (values' next) field = Some val
     \<and> errors next = set_prop field None (errors prev)
     \<and> error_at (errors next) field = None
     \<and> (isValid next \<longleftrightarrow> \<not> list_ex truthy_error (object_values (errors next)))
     \<and> (distinct (object_keys (errors prev)) \<longrightarrow>
          (isValid next \<longleftrightarrow> (\<forall>f. \<not> truthy_error (error_at (errors next) f))))
     \<and> (\<forall>other m. other \<noteq> field \<and> error_at (errors prev) other = Some m \<and> m \<noteq> []
            \<longrightarrow> \<not> isValid next)"
proof -
  define updatedErrors where "updatedErrors = set_prop field None (errors prev)"
  define "next" where
    "next = prev\<lparr>values' := set_prop field val (values' prev), errors := updatedErrors,
       isValid := \<not> list_ex truthy_error (object_values updatedErrors)\<rparr>"
  have run: "setFieldValue config field val prev = Inr next"
    by (simp add: setFieldValue_def Let_def schema accepted next_def updatedErrors_def)
  have errs: "errors next = updatedErrors" and vals: "values' next = set_prop field val (values' prev)"
    and valid: "isValid next \<longleftrightarrow> \<not> list_ex truthy_error (object_values updatedErrors)"
    by (simp_all add: next_def)
  have semantic: "isValid next \<longleftrightarrow> (\<forall>f. \<not> truthy_error (error_at (errors next) f))"
    if "distinct (object_keys (errors prev))"
  proof -
    from that have "distinct (object_keys updatedErrors)"
      unfolding updatedErrors_def by (rule distinct_set_prop)
    then show ?thesis
      by (simp add: valid errs some_truthy_iff)
  qed
  have stale: "\<not> isValid next"
    if "other \<noteq> field" "error_at (errors prev) other = Some m" "m \<noteq> []" for other m
  proof -
    from that(2) have "get_prop (errors prev) other = Some (Some m)"
      by (auto simp: error_at_def split: option.splits)
    with that(1) have "get_prop updatedErrors other = Some (Some m)"
      by (simp add: updatedErrors_def get_prop_set_prop)
    then have "list_ex truthy_error (object_values updatedErrors)"
      by (rule holds_truthy) (simp add: that(3))
    then show ?thesis by (simp add: valid)
  qed
  show ?thesis
  proof (intro exI conjI allI impI)
    show "setFieldValue config field val prev = Inr next" by (rule run)
    show "values' next = set_prop field val (values' prev)" by (rule vals)
    show "get_prop (values' next) field = Some val" by (simp add: vals get_prop_set_prop)
    show "errors next = set_prop field None (errors prev)" by (simp add: errs updatedErrors_def)
    show "error_at (errors next) field = None" by (simp add: errs updatedErrors_def error_at_set_prop)
    show "isValid next \<longleftrightarrow> \<not> list_ex truthy_error (object_values (errors next))"
      by (simp add: valid errs)
    show "isValid next \<longleftrightarrow> (\<forall>f. \<not> truthy_error (error_at (errors next) f))"
      if "distinct (object_keys (errors prev))" using that by (rule semantic)
    show "\<not> isValid next"
      if "other \<noteq> field \<and> error_at (errors prev) other = Some m \<and> m \<noteq> []" for other m
      using that stale by blast
  qed
qed

text \<open>
  The scenario of the spec: \<open>email\<close> is corrected from "bob" to "bob@x.com"; its error is
  cleared and the form is valid. With an error left on \<open>password\<close> from before, whose value
  the schema now accepts, the form stays invalid.
\<close>

theorem C2_setFieldValue_accepted_witness:
  "validationSchema example_config = Some example_schema
   \<and> example_schema (set_prop ''email'' (JString ''bob@x.com'' :: nat jsvalue)
        [(''email'', JString ''bob''), (''password'', JString ''Password1'')]) = Inr ()
   \<and> (\<exists>next. setFieldValue example_config ''email'' (JString ''bob@x.com'')
        \<lparr>values' = [(''email'', JString ''bob''), (''password'', JString ''Password1'')],
         errors = [(''email'', Some ''Please enter a valid email address'')],
         touched = [], isSubmitting = False, isValid = False,
         submitCount = 0, submitError = None\<rparr> = Inr next
        \<and> get_prop (values' next) ''email'' = Some (JString ''bob@x.com'')
        \<and> errors next = [(''email'', None)] \<and> isValid next)
   \<and> (\<exists>next. setFieldValue example_config ''email'' (JString ''bob@x.com'')
        \<lparr>values' = [(''email'', JString ''bob''), (''password'', JString ''Password1'')],
         errors = [(''password'', Some ''Password must be at least 8 characters'')],
         touched = [], isSubmitting = False, isValid = False,
         submitCount = 0, submitError = None\<rparr> = Inr next \<and> \<not> isValid next)"
proof -
  let ?vals = "[(''email'', JString ''bob''), (''password'', JString ''Password1'')] :: nat jsvalue obj"
  let ?prev = "\<lparr>values' = ?vals,
         errors = [(''email'', Some ''Please enter a valid email address'')],
         touched = [], isSubmitting = False, isValid = False,
         submitCount = 0, submitError = None\<rparr>"
  let ?stale = "\<lparr>values' = ?vals,
         errors = [(''password'', Some ''Password must be at least 8 characters'')],
         touched = [], isSubmitting = False, isValid = False,
         submitCount = 0, submitError = None\<rparr>"
  have schema: "validationSchema example_config = Some example_schema"
    by (simp add: example_config_def)
  have accepted: "example_schema (set_prop ''email'' (JString ''bob@x.com'') ?vals) = Inr ()"
    by (simp add: example_schema_def string_field_def get_prop_def email_issues_def
        password_issues_def)
  have accepted1: "example_schema (set_prop ''email'' (JString ''bob@x.com'') (values' ?prev)) = Inr ()"
    using accepted by simp
  have accepted2: "example_schema (set_prop ''email'' (JString ''bob@x.com'') (values' ?stale)) = Inr ()"
    using accepted by simp
  from C2_setFieldValue_accepted [OF schema accepted1]
  obtain n1 where n1: "setFieldValue example_config ''email'' (JString ''bob@x.com'') ?prev = Inr n1"
    "get_prop (values' n1) ''email'' = Some (JString ''bob@x.com'')"
    "errors n1 = set_prop ''email'' None (errors ?prev)"
    "isValid n1 \<longleftrightarrow> \<not> list_ex truthy_error (object_values (errors n1))"
    by blast
  have first: "\<exists>next. setFieldValue example_config ''email'' (JString ''bob@x.com'') ?prev = Inr next
        \<and> get_prop (values' next) ''email'' = Some (JString ''bob@x.com'')
        \<and> errors next = [(''email'', None)] \<and> isValid next"
    using n1 by (simp add: object_values_def)
  from C2_setFieldValue_accepted [OF schema accepted2]
  obtain n2 where n2: "setFieldValue example_config ''email'' (JString ''bob@x.com'') ?stale = Inr n2"
    "\<forall>other m. other \<noteq> ''email'' \<and> error_at (errors ?stale) other = Some m \<and> m \<noteq> []
            \<longrightarrow> \<not> isValid n2"
    by blast
  have "error_at (errors ?stale) ''password'' = Some ''Password must be at least 8 characters''"
    by (simp add: error_at_def get_prop_def)
  with n2(2) have "\<not> isValid n2"
    by (elim allE [where x = "''password''"] allE [where x = "''Password must be at least 8 characters''"]) simp
  with n2(1) have second: "\<exists>next. setFieldValue example_config ''email'' (JString ''bob@x.com'') ?stale = Inr next \<and> \<not> isValid next"
    by blast
  show ?thesis
    using schema accepted first second by (intro conjI)
qed

text \<open>
  C3, as amended. With a schema configured that rejects the updated values with a list of
  violations, \<open>setFieldValue(field, value)\<close> returns normally; it writes the value, sets
  only the entry of \<open>field\<close> in \<open>errors\<close>, to the message of the first violation whose
  leading segment is \<open>field\<close> when that message is not empty, and to \<open>undefined\<close> when
  there is no such violation or its message is empty; every other field's entry is as it
  was before the call; \<open>isValid\<close> is false; nothing else of the store changes.
\<close>

theorem C3_setFieldValue_rejected:
  assumes schema: "validationSchema config = Some schema"
    and rejected: "schema (set_prop field val (values' prev)) = Inl (ZodError errs zmsg)"
  shows "\<exists>next. setFieldValue config field val prev = Inr next
     \<and> values' next = set_prop field val (values' prev)
     \<and> errors next = set_prop field (error_at (errors next) field) (errors prev)
     \<and> error_at (errors next) field =
           (case find (\<lambda>err. path0 err = Some (Key field)) errs of
              None \<Rightarrow> None
            | Some err \<Rightarrow> if message err = [] then None else Some (message err))
     \<and> (\<forall>other. other \<noteq> field \<longrightarrow>
            get_prop (errors next) other = get_prop (errors prev) other)
     \<and> \<not> isValid next
     \<and> touched next = touched prev \<and> isSubmitting next = isSubmitting prev
     \<and> submitCount next = submitCount prev \<and> submitError next = submitError prev"
proof -
  define fieldError where "fieldError = find_field_error field errs"
  define "next" where
    "next = prev\<lparr>values' := set_prop field val (values' prev),
       errors := set_prop field fieldError (errors prev), isValid := False\<rparr>"
  have run: "setFieldValue config field val prev = Inr next"
    by (simp add: setFieldValue_def Let_def schema rejected next_def fieldError_def)
  have entry: "error_at (errors next) field = fieldError"
    by (simp add: next_def error_at_set_prop)
  have found: "fieldError =
      (case find (\<lambda>err. path0 err = Some (Key field)) errs of
         None \<Rightarrow> None
       | Some err \<Rightarrow> if message err = [] then None else Some (message err))"
    by (simp add: fieldError_def find_field_error_def split: option.splits)
  show ?thesis
  proof (intro exI conjI allI impI)
    show "setFieldValue config field val prev = Inr next" by (rule run)
    show "values' next = set_prop field val (values' prev)" by (simp add: next_def)
    show "errors next = set_prop field (error_at (errors next) field) (errors prev)"
      by (simp add: entry) (simp add: next_def)
    show "error_at (errors next) field =
           (case find (\<lambda>err. path0 err = Some (Key field)) errs of
              None \<Rightarrow> None
            | Some err \<Rightarrow> if message err = [] then None else Some (message err))"
      using entry found by simp
    show "get_prop (errors next) other = get_prop (errors prev) other"
      if "other \<noteq> field" for other
      using that by (simp add: next_def get_prop_set_prop)
    show "\<not> isValid next" by (simp add: next_def)
    show "touched next = touched prev" by (simp add: next_def)
    show "isSubmitting next = isSubmitting prev" by (simp add: next_def)
    show "submitCount next = submitCount prev" by (simp add: next_def)
    show "submitError next = submitError prev" by (simp add: next_def)
  qed
qed

text \<open>
  An empty password is rejected with three violations of \<open>password\<close>: its entry is the
  message of the first, and the entry of \<open>email\<close> recorded before is kept.
\<close>

theorem C3_setFieldValue_rejected_witness:
  "validationSchema example_config = Some example_schema
   \<and> example_schema (set_prop ''password'' (JString [] :: nat jsvalue)
        [(''email'', JString ''a@b''), (''password'', JString ''x'')]) =
       Inl (ZodError
         [field_issue ''password'' ''Password must be at least 8 characters'',
          field_issue ''password'' ''Password must contain at least one uppercase letter'',
          field_issue ''password'' ''Password must contain at least one number'']
         ''Validation failed'')
   \<and> (\<exists>next. setFieldValue example_config ''password'' (JString [])
         \<lparr>values' = [(''email'', JString ''a@b''), (''password'', JString ''x'')],
          errors = [(''email'', Some ''Please enter a valid email address'')],
          touched = [], isSubmitting = False, isValid = True,
          submitCount = 0, submitError = None\<rparr> = Inr next
        \<and> error_at (errors next) ''password'' = Some ''Password must be at least 8 characters''
        \<and> get_prop (errors next) ''email'' = Some (Some ''Please enter a valid email address'')
        \<and> \<not> isValid next)"
proof -
  let ?prev = "\<lparr>values' = [(''email'', JString ''a@b''), (''password'', JString ''x'')],
          errors = [(''email'', Some ''Please enter a valid email address'')],
          touched = [], isSubmitting = False, isValid = True,
          submitCount = 0, submitError = None\<rparr> :: nat jsvalue FormState"
  have schema: "validationSchema example_config = Some example_schema"
    by (simp add: example_config_def)
  have rejected: "example_schema (set_prop ''password'' (JString []) (values' ?prev)) =
       Inl (ZodError
         [field_issue ''password'' ''Password must be at least 8 characters'',
          field_issue ''password'' ''Password must contain at least one uppercase letter'',
          field_issue ''password'' ''Password must contain at least one number'']
         ''Validation failed'')"
    by (simp add: example_schema_blank_password)
  from C3_setFieldValue_rejected [OF schema rejected]
  obtain n where n: "setFieldValue example_config ''password'' (JString []) ?prev = Inr n"
    "error_at (errors n) ''password'' =
       (case find (\<lambda>err. path0 err = Some (Key ''password''))
          [field_issue ''password'' ''Password must be at least 8 characters'',
           field_issue ''password'' ''Password must contain at least one uppercase letter'',
           field_issue ''password'' ''Password must contain at least one number''] of
              None \<Rightarrow> None
            | Some err \<Rightarrow> if message err = [] then None else Some (message err))"
    "\<forall>other. other \<noteq> ''password'' \<longrightarrow> get_prop (errors n) other = get_prop (errors ?prev) other"
    "\<not> isValid n"
    by blast
  from n(2) have "error_at (errors n) ''password'' = Some ''Password must be at least 8 characters''"
    by (simp add: path0_def field_issue_def)
  moreover from n(3) have "get_prop (errors n) ''email'' = Some (Some ''Please enter a valid email address'')"
    by (simp add: get_prop_def)
  ultimately show ?thesis
    using schema rejected n(1) n(4) by simp
qed

text \<open>
  C3 as stated fails where the first violation of the field has an empty message: the
  claim gives the field's entry that message, the code stores \<open>undefined\<close>
  (\<^verbatim>\<open>?.message || undefined\<close>, lines 129-131).
\<close>

theorem C3_blank_message_counterexample:
  "(case setFieldValue blank_message_config ''email'' (JString [])
          (initialFormState blank_message_config) of
      Inl _ \<Rightarrow> False
    | Inr next \<Rightarrow>
        blank_message_schema (set_prop ''email'' (JString [] :: nat jsvalue)
            (values' (initialFormState blank_message_config))) =
          Inl (ZodError [field_issue ''email'' []] ''Validation failed'')
        \<and> find (\<lambda>err. path0 err = Some (Key ''email'')) [field_issue ''email'' []] =
            Some (field_issue ''email'' [])
        \<and> error_at (errors next) ''email'' \<noteq> Some (message (field_issue ''email'' []))
        \<and> error_at (errors next) ''email'' = None)"
  by (simp add: setFieldValue_def blank_message_config_def initialFormState_def
      blank_message_schema_def get_prop_def find_field_error_def path0_def field_issue_def
      error_at_def)

subsection \<open>validateForm\<close>

text \<open>
  A render of the example form and the store one queued \<open>setFieldValue\<close> later: the
  values the render's handlers hold are accepted, the store's current values are not.
\<close>

lemma edited_store_reached:
  "setFieldValue example_config ''email'' (JString ''bob'') rendered_store = Inr edited_store"
  by (simp add: setFieldValue_def example_config_def rendered_store_def edited_store_def
      example_schema_def string_field_def get_prop_def email_issues_def password_issues_def
      find_field_error_def path0_def field_issue_def)

lemma edited_values_rejected:
  "validateWithSchema example_config (values' edited_store) =
     (False, [(''email'', Some ''Please enter a valid email address'')])"
  by (simp add: validateWithSchema_def example_config_def edited_store_def
      example_schema_def string_field_def get_prop_def email_issues_def password_issues_def
      record_issue_def assign_prop_def path0_def field_issue_def)

lemma rendered_values_accepted:
  "example_schema (values' rendered_store) = Inr ()"
  by (simp add: rendered_store_def example_schema_def string_field_def get_prop_def
      email_issues_def password_issues_def)

text \<open>
  C4, as amended. \<open>validateForm()\<close> replaces \<open>errors\<close> by the mapping that
  \<open>validateWithSchema\<close> computes from \<open>formState.values\<close> of the render whose
  \<open>validateForm\<close> is called (the store's current values when no update was queued since
  that render), whatever \<open>errors\<close> held before, sets \<open>isValid\<close> to the validity it
  computes and returns that validity. When the configured schema accepts those values,
  and when no schema is configured, it returns true and leaves \<open>errors\<close> empty; when the
  schema rejects them it returns false and \<open>isValid\<close> is false.
\<close>

theorem C4_validateForm:
  "(\<exists>next valid. validateForm config formState_values prev = (next, valid)
      \<and> validateWithSchema config formState_values = (valid, errors next)
      \<and> isValid next = valid
      \<and> next = prev\<lparr>errors := snd (validateWithSchema config formState_values),
                     isValid := fst (validateWithSchema config formState_values)\<rparr>)
   \<and> (\<forall>recorded.
         errors (fst (validateForm config formState_values (prev\<lparr>errors := recorded\<rparr>))) =
         errors (fst (validateForm config formState_values prev)))
   \<and> (\<forall>schema. validationSchema config = Some schema \<and> schema formState_values = Inr ()
         \<longrightarrow> validateForm config formState_values prev =
               (prev\<lparr>errors := [], isValid := True\<rparr>, True))
   \<and> (validationSchema config = None
         \<longrightarrow> validateForm config formState_values prev =
               (prev\<lparr>errors := [], isValid := True\<rparr>, True))
   \<and> (\<forall>schema failure. validationSchema config = Some schema
           \<and> schema formState_values = Inl failure
         \<longrightarrow> \<not> snd (validateForm config formState_values prev)
           \<and> \<not> isValid (fst (validateForm config formState_values prev)))"
proof (intro conjI allI impI)
  show "\<exists>next valid. validateForm config formState_values prev = (next, valid)
      \<and> validateWithSchema config formState_values = (valid, errors next)
      \<and> isValid next = valid
      \<and> next = prev\<lparr>errors := snd (validateWithSchema config formState_values),
                     isValid := fst (validateWithSchema config formState_values)\<rparr>"
    by (cases "validateWithSchema config formState_values") (simp add: validateForm_def)
  show "errors (fst (validateForm config formState_values (prev\<lparr>errors := recorded\<rparr>))) =
         errors (fst (validateForm config formState_values prev))" for recorded
    by (cases "validateWithSchema config formState_values") (simp add: validateForm_def)
  show "validateForm config formState_values prev =
      (prev\<lparr>errors := [], isValid := True\<rparr>, True)"
    if "validationSchema config = Some schema \<and> schema formState_values = Inr ()" for schema
    using that by (simp add: validateForm_def validateWithSchema_def)
  show "validateForm config formState_values prev =
      (prev\<lparr>errors := [], isValid := True\<rparr>, True)"
    if "validationSchema config = None"
    using that by (simp add: validateForm_def validateWithSchema_def)
  fix schema failure
  assume rejected: "validationSchema config = Some schema \<and> schema formState_values = Inl failure"
  then have "\<not> fst (validateWithSchema config formState_values)"
    by (cases failure) (simp_all add: validateWithSchema_def)
  then show "\<not> snd (validateForm config formState_values prev)"
    and "\<not> isValid (fst (validateForm config formState_values prev))"
    by (cases "validateWithSchema config formState_values"; simp add: validateForm_def)+
qed

text \<open>
  Accepted values with a stale error recorded; a form with no schema; and values the
  schema rejects, with an unrelated error recorded before: \<open>errors\<close> holds the violation of
  \<open>email\<close> only, and \<open>validateForm\<close> returns false.
\<close>

theorem C4_validateForm_witness:
  "validationSchema example_config = Some example_schema
   \<and> example_schema (values' rendered_store) = Inr ()
   \<and> validateForm example_config (values' rendered_store)
        (rendered_store\<lparr>errors := [(''email'', Some ''Please enter a valid email address'')],
                        isValid := False\<rparr>) =
       (rendered_store, True)
   \<and> validateForm \<lparr>initialValues = [], validationSchema = None, onSubmit = None\<rparr>
        (values' edited_store) edited_store =
       (edited_store\<lparr>errors := [], isValid := True\<rparr>, True)
   \<and> validateForm example_config (values' edited_store)
        (edited_store\<lparr>errors := [(''password'', Some ''Required'')], isValid := True\<rparr>) =
       (edited_store, False)"
proof -
  let ?stale = "rendered_store\<lparr>errors := [(''email'', Some ''Please enter a valid email address'')],
      isValid := False\<rparr>"
  let ?plain = "\<lparr>initialValues = [], validationSchema = None, onSubmit = None\<rparr>
      :: nat jsvalue UseFormConfig"
  let ?other = "edited_store\<lparr>errors := [(''password'', Some ''Required'')], isValid := True\<rparr>"
  have schema: "validationSchema example_config = Some example_schema"
    by (simp add: example_config_def)
  have "validateForm example_config (values' rendered_store) ?stale =
      (?stale\<lparr>errors := [], isValid := True\<rparr>, True)"
    by (rule C4_validateForm [of example_config "values' rendered_store" ?stale,
          THEN conjunct2, THEN conjunct2, THEN conjunct1, rule_format, of example_schema,
          OF conjI [OF schema rendered_values_accepted]])
  then have accepted: "validateForm example_config (values' rendered_store) ?stale =
      (rendered_store, True)"
    by (simp add: rendered_store_def)
  have "validateForm ?plain (values' edited_store) edited_store =
      (edited_store\<lparr>errors := [], isValid := True\<rparr>, True)"
    by (rule C4_validateForm [of ?plain "values' edited_store" edited_store, THEN conjunct2,
          THEN conjunct2, THEN conjunct2, THEN conjunct1, rule_format]) simp
  moreover have "validateForm example_config (values' edited_store) ?other = (edited_store, False)"
  proof -
    from C4_validateForm [of example_config "values' edited_store" ?other, THEN conjunct1]
    obtain "next" valid where
      "validateForm example_config (values' edited_store) ?other = (next, valid)"
      "next = ?other\<lparr>errors := snd (validateWithSchema example_config (values' edited_store)),
         isValid := fst (validateWithSchema example_config (values' edited_store))\<rparr>"
      "validateWithSchema example_config (values' edited_store) = (valid, errors next)"
      by blast
    then show ?thesis
      by (simp add: edited_values_rejected) (simp add: edited_store_def)
  qed
  ultimately show ?thesis
    using schema rendered_values_accepted accepted by simp
qed

text \<open>
  C4 as stated fails for a handler of a render that is no longer current: after
  \<open>setFieldValue("email", "bob")\<close> was queued, the render's \<open>validateForm\<close> validates the
  values it captured (line 70), which the schema accepts. It returns true and empties
  \<open>errors\<close>, where the mapping computed from the store's current values holds the
  violation of \<open>email\<close> and the validity is false.
\<close>

theorem C4_stale_closure_counterexample:
  "setFieldValue example_config ''email'' (JString ''bob'') rendered_store = Inr edited_store
   \<and> validateWithSchema example_config (values' edited_store) =
       (False, [(''email'', Some ''Please enter a valid email address'')])
   \<and> validateForm example_config (values' rendered_store) edited_store =
       (edited_store\<lparr>errors := [], isValid := True\<rparr>, True)
   \<and> errors (fst (validateForm example_config (values' rendered_store) edited_store)) \<noteq>
       snd (validateWithSchema example_config (values' edited_store))
   \<and> snd (validateForm example_config (values' rendered_store) edited_store) \<noteq>
       fst (validateWithSchema example_config (values' edited_store))"
proof -
  have "validateForm example_config (values' rendered_store) edited_store =
       (edited_store\<lparr>errors := [], isValid := True\<rparr>, True)"
    by (simp add: validateForm_def validateWithSchema_def example_config_def
        rendered_values_accepted)
  then show ?thesis
    by (simp add: edited_store_reached edited_values_rejected)
qed

subsection \<open>handleChange\<close>

text \<open>
  C5. \<open>handleChange\<close> delegates to \<open>setFieldValue\<close> with the coerced value: the boolean
  checked state for a checkbox (a boolean is no string), the empty string for a number
  input whose raw value is empty (a string is no number, so neither 0 nor NaN), the parsed
  number for a number input with any other raw value, and the raw string for every other
  kind of input.
\<close>

theorem C5_handleChange_coercion:
  "(target_type e = ''checkbox'' \<longrightarrow>
      handleChange config Number e prev =
        setFieldValue config (target_name e) (JBoolean (target_checked e)) prev)
   \<and> (target_type e = ''number'' \<and> target_value e = [] \<longrightarrow>
      handleChange config Number e prev =
        setFieldValue config (target_name e) (JString []) prev)
   \<and> (target_type e = ''number'' \<and> target_value e \<noteq> [] \<longrightarrow>
      handleChange config Number e prev =
        setFieldValue config (target_name e) (JNumber (Number (target_value e))) prev)
   \<and> (target_type e \<noteq> ''checkbox'' \<and> target_type e \<noteq> ''number'' \<longrightarrow>
      handleChange config Number e prev =
        setFieldValue config (target_name e) (JString (target_value e)) prev)
   \<and> (\<forall>s. JBoolean (target_checked e) \<noteq> (JString s :: 'n jsvalue))
   \<and> (\<forall>n. (JString [] :: 'n jsvalue) \<noteq> JNumber n)"
  by (simp add: handleChange_def)

text \<open>
  A checked checkbox, a cleared number input, a number input holding "42" and an email
  input.
\<close>

theorem C5_handleChange_coercion_witness:
  "handleChange example_config example_Number
      \<lparr>target_name = ''agreeToTerms'', target_value = ''on'', target_type = ''checkbox'',
       target_checked = True\<rparr> (initialFormState example_config) =
    setFieldValue example_config ''agreeToTerms'' (JBoolean True)
      (initialFormState example_config)
   \<and> handleChange example_config example_Number
      \<lparr>target_name = ''age'', target_value = [], target_type = ''number'',
       target_checked = False\<rparr> (initialFormState example_config) =
    setFieldValue example_config ''age'' (JString []) (initialFormState example_config)
   \<and> handleChange example_config example_Number
      \<lparr>target_name = ''age'', target_value = ''42'', target_type = ''number'',
       target_checked = False\<rparr> (initialFormState example_config) =
    setFieldValue example_config ''age'' (JNumber 42) (initialFormState example_config)
   \<and> handleChange example_config example_Number
      \<lparr>target_name = ''email'', target_value = ''bob'', target_type = ''email'',
       target_checked = False\<rparr> (initialFormState example_config) =
    setFieldValue example_config ''email'' (JString ''bob'') (initialFormState example_config)"
proof -
  have number: "example_Number ''42'' = 42"
    by (simp add: example_Number_def)
  show ?thesis
    using
      C5_handleChange_coercion [of "\<lparr>target_name = ''agreeToTerms'', target_value = ''on'',
        target_type = ''checkbox'', target_checked = True\<rparr>" example_config example_Number
        "initialFormState example_config"]
      C5_handleChange_coercion [of "\<lparr>target_name = ''age'', target_value = [],
        target_type = ''number'', target_checked = False\<rparr>" example_config example_Number
        "initialFormState example_config"]
      C5_handleChange_coercion [of "\<lparr>target_name = ''age'', target_value = ''42'',
        target_type = ''number'', target_checked = False\<rparr>" example_config example_Number
        "initialFormState example_config"]
      C5_handleChange_coercion [of "\<lparr>target_name = ''email'', target_value = ''bob'',
        target_type = ''email'', target_checked = False\<rparr>" example_config example_Number
        "initialFormState example_config"]
    by (simp add: number)
qed

subsection \<open>resetForm\<close>

text \<open>
  C6, as amended. \<open>resetForm()\<close> replaces the store, whatever it was: \<open>values\<close> become the
  \<open>initialValues\<close> of the configuration of the render whose \<open>resetForm\<close> is called,
  \<open>errors\<close> and \<open>touched\<close> are empty, \<open>submitCount\<close> is 0, \<open>submitError\<close> is absent,
  \<open>isSubmitting\<close> is false and \<open>isValid\<close> is true; a second \<open>resetForm\<close> changes
  nothing more. When that configuration's \<open>initialValues\<close> are those the hook was
  constructed with, the store is the construction-time store again.
\<close>

theorem C6_resetForm:
  "resetForm config prev =
     \<lparr>values' = initialValues config, errors = [], touched = [], isSubmitting = False,
      isValid = True, submitCount = 0, submitError = None\<rparr>
   \<and> resetForm config (resetForm config prev) = resetForm config prev
   \<and> (initialValues config = initialValues config0 \<longrightarrow>
        resetForm config prev = initialFormState config0)"
  by (simp add: resetForm_def initialFormState_def)

text \<open>
  A store with values, errors, touched fields, three submissions and a submission error
  is reset to the construction-time store, by the \<open>resetForm\<close> of a render whose
  \<open>initialValues\<close> did not change.
\<close>

theorem C6_resetForm_witness:
  "initialValues (example_config\<lparr>onSubmit := None\<rparr>) = initialValues example_config
   \<and> resetForm (example_config\<lparr>onSubmit := None\<rparr>)
        \<lparr>values' = [(''email'', JString ''bob''), (''password'', JString [])],
         errors = [(''email'', Some ''Please enter a valid email address'')],
         touched = [(''email'', True)], isSubmitting = True, isValid = False,
         submitCount = 3, submitError = Some ''network down''\<rparr> =
       initialFormState example_config
   \<and> values' (initialFormState example_config) =
       [(''email'', JString []), (''password'', JString [])]"
  using C6_resetForm [of "example_config\<lparr>onSubmit := None\<rparr>"
      "\<lparr>values' = [(''email'', JString ''bob''), (''password'', JString [])],
         errors = [(''email'', Some ''Please enter a valid email address'')],
         touched = [(''email'', True)], isSubmitting = True, isValid = False,
         submitCount = 3, submitError = Some ''network down''\<rparr>" example_config]
  by (simp add: example_config_def initialFormState_def)

text \<open>
  C6 as stated fails when a later render passes other \<open>initialValues\<close>: the hook is
  constructed with \<open>example_config\<close>, the \<open>resetForm\<close> of a render with \<open>later_config\<close>
  restores the later configuration's initial values, not the construction-time ones
  (the callback is rebuilt on \<^verbatim>\<open>[initialValues]\<close>, line 201).
\<close>

theorem C6_later_initialValues_counterexample:
  "values' (resetForm later_config
      (setValues [(''password'', JString ''x'')] (initialFormState example_config))) =
     initialValues later_config
   \<and> values' (resetForm later_config
      (setValues [(''password'', JString ''x'')] (initialFormState example_config))) \<noteq>
     initialValues example_config"
  by (simp add: resetForm_def later_config_def example_config_def)

subsection \<open>handleSubmit\<close>

lemma validateForm_eq:
  "validateForm config formState_values s =
     (s\<lparr>errors := snd (validateWithSchema config formState_values),
        isValid := fst (validateWithSchema config formState_values)\<rparr>,
      fst (validateWithSchema config formState_values))"
  by (cases "validateWithSchema config formState_values") (simp add: validateForm_def)

lemma handleSubmit_stops:
  assumes "\<not> fst (validateWithSchema config fv) \<or> onSubmit config = None"
  shows "handleSubmit config fv prev =
     Inr \<lparr>history = [counted prev, validated config fv prev], invocations = []\<rparr>"
  using assms
  by (auto simp: handleSubmit_def Let_def validateForm_eq counted_def validated_def)

lemma handleSubmit_resolved:
  assumes "fst (validateWithSchema config fv)" "onSubmit config = Some callback"
    "callback fv = Inr u"
  shows "handleSubmit config fv prev =
     Inr \<lparr>history = [counted prev, validated config fv prev,
                     (validated config fv prev)\<lparr>isSubmitting := True, submitError := None\<rparr>,
                     (validated config fv prev)\<lparr>isSubmitting := False, submitError := None\<rparr>],
          invocations = [fv]\<rparr>"
  using assms
  by (simp add: handleSubmit_def Let_def validateForm_eq counted_def validated_def)

lemma handleSubmit_rejected:
  assumes "fst (validateWithSchema config fv)" "onSubmit config = Some callback"
    "callback fv = Inl error"
  shows "handleSubmit config fv prev =
     Inr \<lparr>history = [counted prev, validated config fv prev,
                     (validated config fv prev)\<lparr>isSubmitting := True, submitError := None\<rparr>,
                     (validated config fv prev)\<lparr>isSubmitting := False,
                        submitError := Some (submit_failure_text error)\<rparr>],
          invocations = [fv]\<rparr>"
  using assms
  by (simp add: handleSubmit_def Let_def validateForm_eq counted_def validated_def)

lemma handleSubmit_cases:
  obtains (stops) "\<not> fst (validateWithSchema config fv) \<or> onSubmit config = None"
  | (resolved) callback u where "fst (validateWithSchema config fv)"
      "onSubmit config = Some callback" "callback fv = Inr u"
  | (rejected) callback error where "fst (validateWithSchema config fv)"
      "onSubmit config = Some callback" "callback fv = Inl error"
proof (cases "\<not> fst (validateWithSchema config fv) \<or> onSubmit config = None")
  case True
  then show ?thesis by (rule stops)
next
  case False
  then obtain callback where cb: "fst (validateWithSchema config fv)"
      "onSubmit config = Some callback"
    by auto
  show ?thesis
  proof (cases "callback fv")
    case (Inl error)
    with cb show ?thesis by (rule rejected)
  next
    case (Inr u)
    with cb show ?thesis by (rule resolved)
  qed
qed

lemma counted_fields:
  "submitCount (counted prev) = submitCount prev + 1"
  "get_prop (touched (counted prev)) key =
     (if key \<in> set (object_keys (values' prev)) then Some True else None)"
  "values' (counted prev) = values' prev" "isSubmitting (counted prev) = isSubmitting prev"
  "submitError (counted prev) = submitError prev" "errors (counted prev) = errors prev"
  "isValid (counted prev) = isValid prev"
  by (simp_all add: counted_def all_keys_true) (simp add: get_prop_def)

lemma validated_fields:
  "submitCount (validated config fv prev) = submitCount prev + 1"
  "touched (validated config fv prev) = touched (counted prev)"
  "values' (validated config fv prev) = values' prev"
  "isSubmitting (validated config fv prev) = isSubmitting prev"
  "submitError (validated config fv prev) = submitError prev"
  by (simp_all add: validated_def counted_fields)

text \<open>
  C7. Every call of \<open>handleSubmit()\<close> settles normally, and from its first update on (so
  in every store of the run, and in the settled one) \<open>submitCount\<close> is one more than
  before the call and every field name present in \<open>values\<close> is touched, whatever the
  configuration, the values validated and the outcome of the callback.
\<close>

theorem C7_handleSubmit_counts_and_touches:
  "\<exists>run. handleSubmit config formState_values prev = Inr run
     \<and> (\<forall>s \<in> set (history run).
           submitCount s = submitCount prev + 1
         \<and> (\<forall>key \<in> set (object_keys (values' prev)). get_prop (touched s) key = Some True))
     \<and> submitCount (settled run) = submitCount prev + 1
     \<and> (\<forall>key \<in> set (object_keys (values' prev)).
           get_prop (touched (settled run)) key = Some True)"
proof (cases rule: handleSubmit_cases [of config formState_values])
  case stops
  show ?thesis
    unfolding handleSubmit_stops [OF stops]
    by (intro exI conjI) (auto simp: settled_def counted_fields validated_fields)
next
  case (resolved callback u)
  show ?thesis
    unfolding handleSubmit_resolved [OF resolved]
    by (intro exI conjI) (auto simp: settled_def counted_fields validated_fields)
next
  case (rejected callback error)
  show ?thesis
    unfolding handleSubmit_rejected [OF rejected]
    by (intro exI conjI) (auto simp: settled_def counted_fields validated_fields)
qed

text \<open>
  Submitting the untouched example form: one submission is counted and both fields are
  touched.
\<close>

theorem C7_handleSubmit_counts_and_touches_witness:
  "\<exists>run. handleSubmit example_config (initialValues example_config)
            (initialFormState example_config) = Inr run
     \<and> submitCount (initialFormState example_config) = 0
     \<and> submitCount (settled run) = 1
     \<and> get_prop (touched (settled run)) ''email'' = Some True
     \<and> get_prop (touched (settled run)) ''password'' = Some True"
proof -
  from C7_handleSubmit_counts_and_touches
    [of example_config "initialValues example_config" "initialFormState example_config"]
  obtain run where run: "handleSubmit example_config (initialValues example_config)
        (initialFormState example_config) = Inr run"
    "submitCount (settled run) = submitCount (initialFormState example_config) + 1"
    "\<forall>key \<in> set (object_keys (values' (initialFormState example_config))).
       get_prop (touched (settled run)) key = Some True"
    by blast
  have keys: "object_keys (values' (initialFormState example_config)) = [''email'', ''password'']"
    by (simp add: initialFormState_def example_config_def object_keys_def)
  have zero: "submitCount (initialFormState example_config) = 0"
    by (simp add: initialFormState_def)
  from run(3) have "get_prop (touched (settled run)) ''email'' = Some True"
    "get_prop (touched (settled run)) ''password'' = Some True"
    unfolding keys by simp_all
  with run(1,2) zero show ?thesis
    by simp
qed

text \<open>
  C8, as amended. When validation of \<open>formState.values\<close> of the render whose
  \<open>handleSubmit\<close> is called fails (the store's current values when no update was queued
  since that render), or no submit callback is configured, \<open>handleSubmit()\<close> does not
  invoke the callback; no update of the run sets \<open>isSubmitting\<close> (it is as before the call
  in every store of the run, so false at the end when it was false), and the settled store
  differs from the one before the call in \<open>submitCount\<close>, \<open>touched\<close>, \<open>errors\<close> and
  \<open>isValid\<close> only.
\<close>

theorem C8_handleSubmit_stops:
  assumes "\<not> fst (validateWithSchema config formState_values) \<or> onSubmit config = None"
  shows "\<exists>run. handleSubmit config formState_values prev = Inr run
     \<and> invocations run = []
     \<and> (\<forall>s \<in> set (history run).
           isSubmitting s = isSubmitting prev \<and> submitError s = submitError prev
         \<and> values' s = values' prev)
     \<and> (\<not> isSubmitting prev \<longrightarrow> \<not> isSubmitting (settled run))
     \<and> settled run =
         prev\<lparr>submitCount := submitCount prev + 1,
              touched := fold (\<lambda>key acc. set_prop key True acc) (object_keys (values' prev)) [],
              errors := snd (validateWithSchema config formState_values),
              isValid := fst (validateWithSchema config formState_values)\<rparr>"
proof -
  let ?run = "\<lparr>history = [counted prev, validated config formState_values prev],
      invocations = []\<rparr>"
  have "handleSubmit config formState_values prev = Inr ?run"
    using assms by (rule handleSubmit_stops)
  moreover have "invocations ?run = []"
    by simp
  moreover have "\<forall>s \<in> set (history ?run).
      isSubmitting s = isSubmitting prev \<and> submitError s = submitError prev
      \<and> values' s = values' prev"
    by (simp add: counted_fields validated_fields)
  moreover have "\<not> isSubmitting prev \<longrightarrow> \<not> isSubmitting (settled ?run)"
    by (simp add: settled_def validated_fields)
  moreover have "settled ?run =
      prev\<lparr>submitCount := submitCount prev + 1,
           touched := fold (\<lambda>key acc. set_prop key True acc) (object_keys (values' prev)) [],
           errors := snd (validateWithSchema config formState_values),
           isValid := fst (validateWithSchema config formState_values)\<rparr>"
    by (simp add: settled_def validated_def counted_def)
  ultimately show ?thesis
    by blast
qed

text \<open>
  The example form submitted with its empty initial values (validation fails), and a form
  with valid values and no callback.
\<close>

theorem C8_handleSubmit_stops_witness:
  "\<not> fst (validateWithSchema example_config (initialValues example_config))
   \<and> (\<exists>run. handleSubmit example_config (initialValues example_config)
              (initialFormState example_config) = Inr run
        \<and> invocations run = [] \<and> \<not> isSubmitting (settled run)
        \<and> submitError (settled run) = None \<and> \<not> isValid (settled run))
   \<and> onSubmit later_config = None
   \<and> (\<exists>run. handleSubmit later_config
              [(''email'', JString ''a@b''), (''password'', JString ''Password1'')]
              \<lparr>values' = [(''email'', JString ''a@b''), (''password'', JString ''Password1'')],
               errors = [], touched = [], isSubmitting = False, isValid = True,
               submitCount = 0, submitError = None\<rparr> = Inr run
        \<and> invocations run = [] \<and> \<not> isSubmitting (settled run))"
proof -
  let ?s0 = "initialFormState example_config"
  let ?s1 = "\<lparr>values' = [(''email'', JString ''a@b''), (''password'', JString ''Password1'')],
               errors = [], touched = [], isSubmitting = False, isValid = True,
               submitCount = 0, submitError = None\<rparr> :: nat jsvalue FormState"
  have s0: "values' ?s0 = initialValues example_config" "\<not> isSubmitting ?s0"
    "submitError ?s0 = None"
    by (simp_all add: initialFormState_def)
  have invalid: "validateWithSchema example_config (initialValues example_config) =
      (False, [(''email'', Some ''Please enter a valid email address''),
               (''password'', Some ''Password must contain at least one number'')])"
    by (simp add: validateWithSchema_def example_config_def example_schema_def
        string_field_def get_prop_def email_issues_def password_issues_def record_issue_def
        assign_prop_def path0_def field_issue_def)
  then have hyp0: "\<not> fst (validateWithSchema example_config (values' ?s0)) \<or>
      onSubmit example_config = None"
    by (simp add: s0)
  have none: "onSubmit later_config = None"
    by (simp add: later_config_def)
  then have hyp1: "\<not> fst (validateWithSchema later_config (values' ?s1)) \<or>
      onSubmit later_config = None" ..
  from C8_handleSubmit_stops [OF hyp0]
  obtain r0 where r0: "handleSubmit example_config (values' ?s0) ?s0 = Inr r0"
    "invocations r0 = []" "\<not> isSubmitting ?s0 \<longrightarrow> \<not> isSubmitting (settled r0)"
    "settled r0 =
         ?s0\<lparr>submitCount := submitCount ?s0 + 1,
              touched := fold (\<lambda>key acc. set_prop key True acc) (object_keys (values' ?s0)) [],
              errors := snd (validateWithSchema example_config (values' ?s0)),
              isValid := fst (validateWithSchema example_config (values' ?s0))\<rparr>"
    by blast
  from r0(4) have "submitError (settled r0) = None" "\<not> isValid (settled r0)"
    by (simp_all add: s0 invalid)
  with r0(1-3) have first: "\<exists>run. handleSubmit example_config (initialValues example_config)
              ?s0 = Inr run
        \<and> invocations run = [] \<and> \<not> isSubmitting (settled run)
        \<and> submitError (settled run) = None \<and> \<not> isValid (settled run)"
    by (simp add: s0)
  from C8_handleSubmit_stops [OF hyp1]
  obtain r1 where r1: "handleSubmit later_config (values' ?s1) ?s1 = Inr r1"
    "invocations r1 = []" "\<not> isSubmitting ?s1 \<longrightarrow> \<not> isSubmitting (settled r1)"
    by blast
  then have second: "\<exists>run. handleSubmit later_config
              [(''email'', JString ''a@b''), (''password'', JString ''Password1'')]
              ?s1 = Inr run
        \<and> invocations run = [] \<and> \<not> isSubmitting (settled run)"
    by simp
  from invalid have "\<not> fst (validateWithSchema example_config (initialValues example_config))"
    by simp
  then show ?thesis
    using first none second by (intro conjI)
qed

text \<open>
  C8 as stated fails for a handler of a render that is no longer current: after
  \<open>setFieldValue("email", "bob")\<close> was queued, validation of the store's current values
  fails, but the render's \<open>handleSubmit\<close> validates the values it captured (lines 70, 221),
  which the schema accepts: the callback is invoked with them, \<open>isSubmitting\<close> is set, and
  the callback's failure is recorded in \<open>submitError\<close>.
\<close>

theorem C8_stale_closure_counterexample:
  "setFieldValue example_config ''email'' (JString ''bob'') rendered_store = Inr edited_store
   \<and> \<not> fst (validateWithSchema example_config (values' edited_store))
   \<and> (case handleSubmit example_config (values' rendered_store) edited_store of
         Inl failure \<Rightarrow> False
       | Inr run \<Rightarrow>
           invocations run = [values' rendered_store]
         \<and> list_ex isSubmitting (history run)
         \<and> \<not> isSubmitting edited_store
         \<and> submitError (settled run) = Some ''network down''
         \<and> submitError edited_store = None)"
proof -
  have valid: "fst (validateWithSchema example_config (values' rendered_store))"
    by (simp add: validateWithSchema_def example_config_def rendered_values_accepted)
  have callback: "onSubmit example_config = Some failing_callback"
    by (simp add: example_config_def)
  have rejects: "failing_callback (values' rendered_store) = Inl (OtherError ''network down'')"
    by (simp add: failing_callback_def)
  show ?thesis
    by (simp add: handleSubmit_rejected [OF valid callback rejects] edited_store_reached
        edited_values_rejected settled_def submit_failure_text_def)
      (simp add: edited_store_def)
qed



subsection \<open>A schema that fails otherwise\<close>

text \<open>
  C10. With a schema configured whose \<open>parse\<close> fails with anything other than a
  \<open>ZodError\<close>: \<open>setFieldValue(field, value)\<close> returns normally, and the new store is the
  old one with the value written (\<open>errors\<close> and \<open>isValid\<close> as before); under the same
  failure \<open>validateWithSchema\<close> reports invalid with no field errors, which \<open>validateForm\<close>
  writes into the store and returns.
\<close>

theorem C10_non_zod_failure:
  assumes schema: "validationSchema config = Some schema"
    and not_zod: "\<forall>errs m. error \<noteq> ZodError errs m"
  shows "(schema (set_prop field val (values' prev)) = Inl error \<longrightarrow>
            setFieldValue config field val prev =
              Inr (prev\<lparr>values' := set_prop field val (values' prev)\<rparr>))
     \<and> (schema vals = Inl error \<longrightarrow>
            validateWithSchema config vals = (False, [])
          \<and> validateForm config vals prev = (prev\<lparr>errors := [], isValid := False\<rparr>, False))"
  using not_zod
  by (cases error) (simp_all add: setFieldValue_def validateWithSchema_def validateForm_def schema)

text \<open>
  A schema whose \<open>parse\<close> throws a plain \<open>Error\<close>: the value is written and the recorded
  error and validity stay; \<open>validateForm\<close> empties \<open>errors\<close> and reports invalid.
\<close>

theorem C10_non_zod_failure_witness:
  "validationSchema broken_config = Some broken_schema
   \<and> (\<forall>errs m. OtherError ''parse is not available'' \<noteq> ZodError errs m)
   \<and> broken_schema (set_prop ''email'' (JString ''bob'' :: nat jsvalue) [(''email'', JString [])]) =
       Inl (OtherError ''parse is not available'')
   \<and> setFieldValue broken_config ''email'' (JString ''bob'')
        \<lparr>values' = [(''email'', JString [])],
         errors = [(''email'', Some ''Required'')], touched = [], isSubmitting = False,
         isValid = False, submitCount = 2, submitError = None\<rparr> =
       Inr \<lparr>values' = [(''email'', JString ''bob'')],
         errors = [(''email'', Some ''Required'')], touched = [], isSubmitting = False,
         isValid = False, submitCount = 2, submitError = None\<rparr>
   \<and> validateForm broken_config [(''email'', JString [])]
        \<lparr>values' = [(''email'', JString [])],
         errors = [(''email'', Some ''Required'')], touched = [], isSubmitting = False,
         isValid = True, submitCount = 2, submitError = None\<rparr> =
       (\<lparr>values' = [(''email'', JString [])],
         errors = [], touched = [], isSubmitting = False,
         isValid = False, submitCount = 2, submitError = None\<rparr>, False)"
proof -
  have schema: "validationSchema broken_config = Some broken_schema"
    by (simp add: broken_config_def)
  have not_zod: "\<forall>errs m. OtherError ''parse is not available'' \<noteq> ZodError errs m"
    by simp
  have fails: "broken_schema vals = Inl (OtherError ''parse is not available'')"
    for vals :: "nat jsvalue obj"
    by (simp add: broken_schema_def)
  show ?thesis
    using C10_non_zod_failure [OF schema not_zod, of "''email''" "JString ''bob''"
        "\<lparr>values' = [(''email'', JString [])],
         errors = [(''email'', Some ''Required'')], touched = [], isSubmitting = False,
         isValid = False, submitCount = 2, submitError = None\<rparr>" "[(''email'', JString [])]"]
      C10_non_zod_failure [OF schema not_zod, of "''email''" "JString ''bob''"
        "\<lparr>values' = [(''email'', JString [])],
         errors = [(''email'', Some ''Required'')], touched = [], isSubmitting = False,
         isValid = True, submitCount = 2, submitError = None\<rparr>" "[(''email'', JString [])]"]
      schema fails
    by simp
qed

end
